theory Spec2Isabelle
  imports Main "HOL-Library.Multiset"
begin

section \<open>Errors\<close>

text \<open>
  Go errors as values. \<open>StatusError\<close> is \<^verbatim>\<open>*k8serrors.StatusError\<close>, carrying the
  reason read by \<^verbatim>\<open>Status().Reason\<close>; \<open>ErrorString\<close> is an error made by
  \<^verbatim>\<open>errors.New\<close> or by \<^verbatim>\<open>fmt.Errorf\<close> without a wrapped cause; \<open>WrapError\<close> is
  \<^verbatim>\<open>fmt.Errorf("...: %w", err)\<close>; \<open>PermissionDeniedOrNotFoundError\<close> has the fields
  \<^verbatim>\<open>Err\<close> (nil is \<open>None\<close>) and \<^verbatim>\<open>ResourceType\<close>; \<open>NotAuthenticatedError\<close> is the value
  built by \<^verbatim>\<open>apierrors.NewNotAuthenticatedError\<close> around its cause.
\<close>

datatype error =
    StatusError string
  | ErrorString string
  | WrapError string error
  | PermissionDeniedOrNotFoundError "error option" string
  | NotAuthenticatedError error

text \<open>
  Modelled from the spec: the error kinds (section 7) of the error types that the
  repository and \<^verbatim>\<open>apierrors\<close> declare in files that are not among the sources. The
  kind of an error value is read off its Go type, as a type switch on the error does:
  the two error types have their own kind; every other error value (a raw store error,
  an error made from a message) is \<open>Unknown\<close>.
\<close>

datatype ErrorKind =
    PermissionDeniedOrNotFound
  | NotAuthenticated
  | Unknown

fun kindOf :: "error \<Rightarrow> ErrorKind" where
  "kindOf (PermissionDeniedOrNotFoundError _ _) = PermissionDeniedOrNotFound"
| "kindOf (NotAuthenticatedError _) = NotAuthenticated"
| "kindOf _ = Unknown"

text \<open>The kind of the failure of an operation, if it failed.\<close>

definition failureKind :: "error + 'a \<Rightarrow> ErrorKind option" where
  "failureKind res = (case res of Inl err \<Rightarrow> Some (kindOf err) | Inr _ \<Rightarrow> None)"

text \<open>The two status reasons of the Kubernetes API machinery that the code names.\<close>

definition StatusReasonNotFound :: string where
  "StatusReasonNotFound = ''NotFound''"

definition StatusReasonUnauthorized :: string where
  "StatusReasonUnauthorized = ''Unauthorized''"

section \<open>Store objects\<close>

text \<open>
  Object metadata. A timestamp is an instant, an integer; \<^verbatim>\<open>Before\<close> on two timestamps
  is \<open><\<close> on the instants.
\<close>

record ObjectMeta =
  Name :: string
  Namespace :: string
  UID :: string
  ResourceVersion :: nat
  CreationTimestamp :: int
  ManagedFields :: "int list"

record CFDomainSpec =
  Name :: string

record CFDomain =
  ObjectMeta :: ObjectMeta
  Spec :: CFDomainSpec

text \<open>
  Two helpers of the package are called by the record mappers and are not among the
  sources: the formatting of a timestamp in \<^verbatim>\<open>TimestampFormat\<close> and
  \<^verbatim>\<open>getTimeLastUpdatedTimestamp\<close>. Both are taken as parameters.
\<close>

record deps =
  formatTimestamp :: "int \<Rightarrow> string"
  getTimeLastUpdatedTimestamp :: "ObjectMeta \<Rightarrow> string \<times> error option"

section \<open>sort.Slice\<close>

text \<open>
  \<^verbatim>\<open>sort.Slice\<close> on a short slice is the library's insertion sort: for each index \<open>i\<close> from
  the left, the element at \<open>i\<close> is swapped leftwards while \<^verbatim>\<open>less(j, j-1)\<close> holds.
  \<open>insertLeft\<close> is the inner loop; its list argument is the sorted prefix read from right
  to left, so that its head is the left neighbour of the element being moved. On long
  slices the library runs another algorithm, and it promises no order among elements
  that the comparison does not separate; the theorems below on whole collections use
  of the sort only that its result is a rearrangement of its input in the order of the
  comparison.
\<close>

fun insertLeft :: "('a \<Rightarrow> 'a \<Rightarrow> bool) \<Rightarrow> 'a \<Rightarrow> 'a list \<Rightarrow> 'a list" where
  "insertLeft lessFn x [] = [x]"
| "insertLeft lessFn x (y # ys) =
     (if lessFn x y then y # insertLeft lessFn x ys else x # y # ys)"

fun insertionSort :: "('a \<Rightarrow> 'a \<Rightarrow> bool) \<Rightarrow> 'a list \<Rightarrow> 'a list \<Rightarrow> 'a list" where
  "insertionSort lessFn acc [] = acc"
| "insertionSort lessFn acc (x # xs) = insertionSort lessFn (insertLeft lessFn x acc) xs"

definition sort_Slice :: "('a \<Rightarrow> 'a \<Rightarrow> bool) \<Rightarrow> 'a list \<Rightarrow> 'a list" where
  "sort_Slice lessFn xs = rev (insertionSort lessFn [] xs)"

section \<open>Domain repository\<close>

record DomainRecord =
  Name :: string
  GUID :: string
  Labels :: "string \<rightharpoonup> string"
  Annotations :: "string \<rightharpoonup> string"
  CreatedAt :: string
  UpdatedAt :: string

record ListDomainsMessage =
  Names :: "string list"

text \<open>
  The privileged client of the repository, as far as the domain repository uses it: the
  outcome of \<^verbatim>\<open>Get\<close> for a name and the outcome of \<^verbatim>\<open>List\<close>.
\<close>

record DomainRepo =
  privilegedClient_Get :: "string \<Rightarrow> error + CFDomain"
  privilegedClient_List :: "error + CFDomain list"

definition cfDomainToDomainRecord :: "deps \<Rightarrow> CFDomain \<Rightarrow> DomainRecord" where
  "cfDomainToDomainRecord h cfDomain =
     (let updatedAtTime = fst (getTimeLastUpdatedTimestamp h (ObjectMeta cfDomain))
      in \<lparr> DomainRecord.Name = CFDomainSpec.Name (Spec cfDomain),
           GUID = ObjectMeta.Name (ObjectMeta cfDomain),
           Labels = Map.empty,
           Annotations = Map.empty,
           CreatedAt = formatTimestamp h (CreationTimestamp (ObjectMeta cfDomain)),
           UpdatedAt = updatedAtTime \<rparr>)"

definition GetDomain :: "deps \<Rightarrow> DomainRepo \<Rightarrow> string \<Rightarrow> error + DomainRecord" where
  "GetDomain h r domainGUID =
     (case privilegedClient_Get r domainGUID of
        Inl err \<Rightarrow>
          (case err of
             StatusError reason \<Rightarrow>
               if reason = StatusReasonNotFound \<or> reason = StatusReasonUnauthorized
               then Inl (PermissionDeniedOrNotFoundError (Some err) ''Domain'')
               else Inl err
           | _ \<Rightarrow> Inl err)
      | Inr domain \<Rightarrow> Inr (cfDomainToDomainRecord h domain))"

text \<open>The inner loop of the name filter: one copy of the domain per matching entry.\<close>

fun appendMatches :: "CFDomain \<Rightarrow> string list \<Rightarrow> CFDomain list" where
  "appendMatches domain [] = []"
| "appendMatches domain (name # names) =
     (if CFDomainSpec.Name (Spec domain) = name
      then domain # appendMatches domain names
      else appendMatches domain names)"

fun filterDomains :: "CFDomain list \<Rightarrow> string list \<Rightarrow> CFDomain list" where
  "filterDomains [] names = []"
| "filterDomains (domain # domainList) names =
     appendMatches domain names @ filterDomains domainList names"

definition domainBefore :: "CFDomain \<Rightarrow> CFDomain \<Rightarrow> bool" where
  "domainBefore a b \<longleftrightarrow>
     CreationTimestamp (ObjectMeta a) < CreationTimestamp (ObjectMeta b)"

definition domainTime :: "CFDomain \<Rightarrow> int" where
  "domainTime d = CreationTimestamp (ObjectMeta d)"

definition applyDomainListFilterAndOrder ::
  "CFDomain list \<Rightarrow> ListDomainsMessage \<Rightarrow> CFDomain list" where
  "applyDomainListFilterAndOrder domainList message =
     (let filtered = (if length (Names message) > 0
                      then filterDomains domainList (Names message)
                      else domainList)
      in sort_Slice domainBefore filtered)"

definition returnDomainList :: "deps \<Rightarrow> CFDomain list \<Rightarrow> DomainRecord list" where
  "returnDomainList h domainList = map (cfDomainToDomainRecord h) domainList"

definition ListDomains ::
  "deps \<Rightarrow> DomainRepo \<Rightarrow> ListDomainsMessage \<Rightarrow> error + DomainRecord list" where
  "ListDomains h r message =
     (case privilegedClient_List r of
        Inl err \<Rightarrow> Inl err
      | Inr items \<Rightarrow> Inr (returnDomainList h (applyDomainListFilterAndOrder items message)))"

definition GetDomainByName :: "deps \<Rightarrow> DomainRepo \<Rightarrow> string \<Rightarrow> error + DomainRecord" where
  "GetDomainByName h r domainName =
     (case ListDomains h r \<lparr> Names = [domainName] \<rparr> of
        Inl err \<Rightarrow> Inl err
      | Inr domainRecords \<Rightarrow>
          (case domainRecords of
             [] \<Rightarrow> Inl (PermissionDeniedOrNotFoundError None ''Domain'')
           | record0 # _ \<Rightarrow> Inr record0))"

section \<open>Package repository\<close>

text \<open>
  The package object, with the fields of its spec that the repository reads:
  \<^verbatim>\<open>Spec.Type\<close>, \<^verbatim>\<open>Spec.AppRef.Name\<close> and \<^verbatim>\<open>Spec.Source.Registry.Image\<close>.
\<close>

record CFPackageSpec =
  Type :: string
  AppRef_Name :: string
  Source_Registry_Image :: string

record CFPackage =
  ObjectMeta :: ObjectMeta
  Spec :: CFPackageSpec

record PackageRecord =
  GUID :: string
  UID :: string
  Type :: string
  AppGUID :: string
  SpaceGUID :: string
  State :: string
  CreatedAt :: string
  UpdatedAt :: string

record ListPackagesMessage =
  AppGUIDs :: "string list"
  SortBy :: string
  DescendingOrder :: bool
  States :: "string list"

record PackageRepo =
  privilegedClient_List :: "error + CFPackage list"

definition PackageStateAwaitingUpload :: string where
  "PackageStateAwaitingUpload = ''AWAITING_UPLOAD''"

definition PackageStateReady :: string where
  "PackageStateReady = ''READY''"

definition cfPackageToPackageRecord :: "deps \<Rightarrow> CFPackage \<Rightarrow> PackageRecord" where
  "cfPackageToPackageRecord h cfPackage =
     (let updatedAtTime = fst (getTimeLastUpdatedTimestamp h (CFPackage.ObjectMeta cfPackage));
          state = (if Source_Registry_Image (CFPackage.Spec cfPackage) \<noteq> []
                   then PackageStateReady else PackageStateAwaitingUpload)
      in \<lparr> PackageRecord.GUID = ObjectMeta.Name (CFPackage.ObjectMeta cfPackage),
           UID = ObjectMeta.UID (CFPackage.ObjectMeta cfPackage),
           Type = CFPackageSpec.Type (CFPackage.Spec cfPackage),
           AppGUID = AppRef_Name (CFPackage.Spec cfPackage),
           SpaceGUID = Namespace (CFPackage.ObjectMeta cfPackage),
           State = state,
           CreatedAt = formatTimestamp h (CreationTimestamp (CFPackage.ObjectMeta cfPackage)),
           UpdatedAt = updatedAtTime \<rparr>)"

definition packageBefore :: "CFPackage \<Rightarrow> CFPackage \<Rightarrow> bool" where
  "packageBefore a b \<longleftrightarrow>
     CreationTimestamp (CFPackage.ObjectMeta a) < CreationTimestamp (CFPackage.ObjectMeta b)"

definition packageTime :: "CFPackage \<Rightarrow> int" where
  "packageTime p = CreationTimestamp (CFPackage.ObjectMeta p)"

text \<open>The comparison handed to \<^verbatim>\<open>sort.Slice\<close> by \<open>orderPackages\<close>.\<close>

definition packageLess :: "ListPackagesMessage \<Rightarrow> CFPackage \<Rightarrow> CFPackage \<Rightarrow> bool" where
  "packageLess message a b =
     (if SortBy message = ''created_at'' \<and> DescendingOrder message
      then \<not> packageBefore a b
      else packageBefore a b)"

definition orderPackages :: "CFPackage list \<Rightarrow> ListPackagesMessage \<Rightarrow> CFPackage list" where
  "orderPackages packages message = sort_Slice (packageLess message) packages"

text \<open>The inner loops of \<open>applyPackageFilter\<close>: leave at the first equal entry.\<close>

fun anyEqual :: "string \<Rightarrow> string list \<Rightarrow> bool" where
  "anyEqual v [] = False"
| "anyEqual v (w # ws) = (if v = w then True else anyEqual v ws)"

definition applyPackageFilter ::
  "PackageRecord list \<Rightarrow> ListPackagesMessage \<Rightarrow> PackageRecord list" where
  "applyPackageFilter packages message =
     (let appFiltered =
            (if length (AppGUIDs message) > 0
             then filter (\<lambda>currentPackage. anyEqual (AppGUID currentPackage) (AppGUIDs message))
                    packages
             else packages);
          stateFiltered =
            (if length (States message) > 0
             then filter (\<lambda>currentPackage. anyEqual (State currentPackage) (States message))
                    appFiltered
             else appFiltered)
      in stateFiltered)"

definition convertToPackageRecords :: "deps \<Rightarrow> CFPackage list \<Rightarrow> PackageRecord list" where
  "convertToPackageRecords h packages = map (cfPackageToPackageRecord h) packages"

definition ListPackages ::
  "deps \<Rightarrow> PackageRepo \<Rightarrow> ListPackagesMessage \<Rightarrow> error + PackageRecord list" where
  "ListPackages h r message =
     (case PackageRepo.privilegedClient_List r of
        Inl err \<Rightarrow> Inl err
      | Inr items \<Rightarrow>
          Inr (applyPackageFilter
                 (convertToPackageRecords h (orderPackages items message)) message))"

definition filterPackagesByMetadataName :: "CFPackage list \<Rightarrow> string \<Rightarrow> CFPackage list" where
  "filterPackagesByMetadataName packages name =
     filter (\<lambda>app. ObjectMeta.Name (CFPackage.ObjectMeta app) = name) packages"

definition returnPackage :: "deps \<Rightarrow> CFPackage list \<Rightarrow> error + PackageRecord" where
  "returnPackage h packages =
     (if length packages = 0 then Inl (PermissionDeniedOrNotFoundError None [])
      else if length packages > 1 then Inl (ErrorString ''duplicate packages exist'')
      else Inr (cfPackageToPackageRecord h (packages ! 0)))"

definition GetPackage :: "deps \<Rightarrow> PackageRepo \<Rightarrow> string \<Rightarrow> error + PackageRecord" where
  "GetPackage h r guid =
     (case PackageRepo.privilegedClient_List r of
        Inl err \<Rightarrow> Inl err
      | Inr allPackages \<Rightarrow> returnPackage h (filterPackagesByMetadataName allPackages guid))"

section \<open>Client factory\<close>

text \<open>
  \<open>Info\<close> is \<^verbatim>\<open>authorization.Info\<close>; \<open>Config\<close> holds the fields of \<^verbatim>\<open>rest.Config\<close> that
  \<open>BuildClient\<close> writes, and the host of the base configuration.
\<close>

record Info =
  Token :: string
  CertData :: string

record Config =
  Host :: string
  BearerToken :: string
  CertData :: string
  KeyData :: string

text \<open>
  What \<open>BuildClient\<close> calls outside its own file: the method \<^verbatim>\<open>Scheme\<close> of
  \<^verbatim>\<open>authorization.Info\<close> and the two scheme constants of that package,
  \<^verbatim>\<open>strings.ToLower\<close>, \<^verbatim>\<open>pem.Decode\<close> (the block, or nil, and the rest of the input),
  \<^verbatim>\<open>pem.EncodeToMemory\<close>, \<^verbatim>\<open>client.NewWithWatch\<close> and \<^verbatim>\<open>apierrors.FromK8sError\<close>.
  All are parameters.
\<close>

record ('block, 'mapper, 'client) factoryDeps =
  Scheme :: "Info \<Rightarrow> string"
  BearerScheme :: string
  CertScheme :: string
  ToLower :: "string \<Rightarrow> string"
  pem_Decode :: "string \<Rightarrow> 'block option \<times> string"
  pem_EncodeToMemory :: "'block \<Rightarrow> string"
  NewWithWatch :: "Config \<Rightarrow> 'mapper \<Rightarrow> error + 'client"
  FromK8sError :: "error \<Rightarrow> string \<Rightarrow> error"

record 'mapper UnprivilegedClientFactory =
  config :: Config
  mapper :: 'mapper

text \<open>
  The result of \<open>BuildClient\<close> is paired with the list of the configurations handed to
  \<^verbatim>\<open>client.NewWithWatch\<close> during the call, in order: the empty list says that no client
  was constructed. \<open>newClient\<close> is the tail of the function, after the switch.
\<close>

definition newClient ::
  "('block, 'mapper, 'client) factoryDeps \<Rightarrow> 'mapper UnprivilegedClientFactory \<Rightarrow> Config
     \<Rightarrow> (error + 'client) \<times> Config list" where
  "newClient e f cfg =
     (case NewWithWatch e cfg (mapper f) of
        Inl err \<Rightarrow> (Inl (FromK8sError e err []), [cfg])
      | Inr userClient \<Rightarrow> (Inr userClient, [cfg]))"

definition BuildClient ::
  "('block, 'mapper, 'client) factoryDeps \<Rightarrow> 'mapper UnprivilegedClientFactory \<Rightarrow> Info
     \<Rightarrow> (error + 'client) \<times> Config list" where
  "BuildClient e f authInfo =
     (let cfg = config f;
          scheme = ToLower e (Scheme e authInfo)
      in if scheme = BearerScheme e
         then newClient e f (cfg\<lparr> BearerToken := Token authInfo \<rparr>)
         else if scheme = CertScheme e
         then (case pem_Decode e (Info.CertData authInfo) of
                 (None, rst) \<Rightarrow> (Inl (ErrorString ''failed to decode cert PEM''), [])
               | (Some certBlock, rst) \<Rightarrow>
                   (case fst (pem_Decode e rst) of
                      None \<Rightarrow> (Inl (ErrorString ''failed to decode key PEM''), [])
                    | Some keyBlock \<Rightarrow>
                        newClient e f
                          (cfg\<lparr> CertData := pem_EncodeToMemory e certBlock,
                                KeyData := pem_EncodeToMemory e keyBlock \<rparr>)))
         else (Inl (NotAuthenticatedError
                      (ErrorString ''unsupported Authorization header scheme'')), []))"

section \<open>Route repository\<close>

text \<open>
  The file of the route repository is not among the sources; its test suite is. The
  types below are the ones the tests build and inspect, and the operations follow the
  specification of the repository (section 4.3) and of the resource store (section 6).
\<close>

record Destination =
  GUID :: string
  Port :: int
  AppRef_Name :: string
  ProcessType :: string
  Protocol :: string

record CFRouteSpec =
  Host :: string
  Path :: string
  Protocol :: string
  DomainRef_Name :: string
  Destinations :: "Destination list"

record CFRoute =
  ObjectMeta :: ObjectMeta
  Spec :: CFRouteSpec

record DestinationRecord =
  GUID :: string
  AppGUID :: string
  Port :: int
  ProcessType :: string
  Protocol :: string

record DestinationMessage =
  AppGUID :: string
  ProcessType :: string
  Port :: int
  Protocol :: string

record RouteRecord =
  GUID :: string
  SpaceGUID :: string
  Domain :: DomainRecord
  Host :: string
  Path :: string
  Protocol :: string
  Destinations :: "DestinationRecord list"
  CreatedAt :: string
  UpdatedAt :: string

record CreateRouteMessage =
  Host :: string
  Path :: string
  SpaceGUID :: string
  DomainGUID :: string

record AddDestinationsToRouteMessage =
  RouteGUID :: string
  SpaceGUID :: string
  ExistingDestinations :: "DestinationRecord list"
  NewDestinations :: "DestinationMessage list"

subsection \<open>The resource store\<close>

text \<open>
  Modelled from the spec: the resource store that the missing \<open>RouteRepo\<close> calls
  through its client (section 6), an external collaborator. The state holds the route objects of all namespaces in the order of
  their creation, a clock that stamps created objects, and the number of identifiers
  handed out so far. \<open>create\<close> refuses a blank namespace (the message is the one the
  tests expect), a name already taken in the namespace, and an object equivalent to an
  existing one, both as \<open>AlreadyExists\<close>; \<open>patch\<close> is conditional on the expected
  version token and answers \<open>Conflict\<close> on a mismatch. A write is validated against the
  schema of the object: a destination whose protocol is not a supported value is refused
  as \<open>Invalid\<close>; the tests of the repository expect this failure for the protocol
  \<^verbatim>\<open>bad-protocol\<close>, the only supported value being \<^verbatim>\<open>http1\<close>.
\<close>

record RouteStore =
  routes :: "CFRoute list"
  clock :: int
  issued :: nat











subsection \<open>Record mapping\<close>

definition destinationToRecord :: "Destination \<Rightarrow> DestinationRecord" where
  "destinationToRecord d =
     \<lparr> DestinationRecord.GUID = Destination.GUID d,
       AppGUID = Destination.AppRef_Name d,
       Port = Destination.Port d,
       ProcessType = Destination.ProcessType d,
       Protocol = Destination.Protocol d \<rparr>"

definition recordToDestination :: "DestinationRecord \<Rightarrow> Destination" where
  "recordToDestination d =
     \<lparr> Destination.GUID = DestinationRecord.GUID d,
       Port = DestinationRecord.Port d,
       AppRef_Name = DestinationRecord.AppGUID d,
       ProcessType = DestinationRecord.ProcessType d,
       Protocol = DestinationRecord.Protocol d \<rparr>"

text \<open>
  Modelled from the spec: the missing mapping of a route object to its record (the
  Record Mapper of section 2), with the fields that the tests compare (\<open>validateRoute\<close>): the domain of the record carries the GUID of
  the referenced domain only.
\<close>

definition cfRouteToRouteRecord :: "deps \<Rightarrow> CFRoute \<Rightarrow> RouteRecord" where
  "cfRouteToRouteRecord h cfRoute =
     \<lparr> RouteRecord.GUID = ObjectMeta.Name (CFRoute.ObjectMeta cfRoute),
       SpaceGUID = Namespace (CFRoute.ObjectMeta cfRoute),
       Domain = \<lparr> DomainRecord.Name = [],
                  GUID = DomainRef_Name (CFRoute.Spec cfRoute),
                  Labels = Map.empty, Annotations = Map.empty,
                  CreatedAt = [], UpdatedAt = [] \<rparr>,
       Host = CFRouteSpec.Host (CFRoute.Spec cfRoute),
       Path = CFRouteSpec.Path (CFRoute.Spec cfRoute),
       Protocol = CFRouteSpec.Protocol (CFRoute.Spec cfRoute),
       Destinations = map destinationToRecord (CFRouteSpec.Destinations (CFRoute.Spec cfRoute)),
       CreatedAt = formatTimestamp h (CreationTimestamp (CFRoute.ObjectMeta cfRoute)),
       UpdatedAt = fst (getTimeLastUpdatedTimestamp h (CFRoute.ObjectMeta cfRoute)) \<rparr>"

subsection \<open>Get, create, get-or-create\<close>

text \<open>
  Modelled from the spec: the missing \<open>RouteRepo.GetRoute\<close>, get-by-identifier with
  uniqueness enforcement (section 4.3). The search spans all namespaces; the two failures are the ones the tests of
  \<open>GetRoute\<close> expect.
\<close>

definition GetRoute :: "deps \<Rightarrow> RouteStore \<Rightarrow> string \<Rightarrow> error + RouteRecord" where
  "GetRoute h st routeGUID =
     (let matches = filter (\<lambda>cur. ObjectMeta.Name (CFRoute.ObjectMeta cur) = routeGUID)
                      (routes st)
      in if length matches = 0 then Inl (PermissionDeniedOrNotFoundError None [])
         else if length matches > 1 then Inl (ErrorString ''duplicate route GUID exists'')
         else Inr (cfRouteToRouteRecord h (matches ! 0)))"





subsection \<open>Merge without duplication\<close>








section \<open>Sample values\<close>

text \<open>
  Concrete inputs on which the theorems below are evaluated: a formatter that writes a
  timestamp in unary, store objects with given name and creation time.
\<close>

definition sampleDeps :: deps where
  "sampleDeps =
     \<lparr> formatTimestamp = (\<lambda>t. replicate (nat t) CHR ''I''),
       getTimeLastUpdatedTimestamp =
         (\<lambda>m. case ManagedFields m of
                 [] \<Rightarrow> ([], Some (ErrorString ''error, metadata.ManagedFields was empty''))
               | t # _ \<Rightarrow> (replicate (nat t) CHR ''I'', None)) \<rparr>"

definition sampleMeta :: "string \<Rightarrow> string \<Rightarrow> int \<Rightarrow> ObjectMeta" where
  "sampleMeta ns guid t =
     \<lparr> ObjectMeta.Name = guid, Namespace = ns, UID = guid, ResourceVersion = 1,
       CreationTimestamp = t, ManagedFields = [t] \<rparr>"

definition sampleDomain :: "string \<Rightarrow> string \<Rightarrow> int \<Rightarrow> CFDomain" where
  "sampleDomain guid name t =
     \<lparr> CFDomain.ObjectMeta = sampleMeta [] guid t, Spec = \<lparr> CFDomainSpec.Name = name \<rparr> \<rparr>"

text \<open>
  A client over a given collection of domains: \<open>Get\<close> finds the domain of that name or
  answers "not found". \<open>deniedDomainRepo\<close> is a client whose caller is not authorised.
\<close>

definition sampleDomainRepo :: "CFDomain list \<Rightarrow> DomainRepo" where
  "sampleDomainRepo items =
     \<lparr> privilegedClient_Get =
         (\<lambda>guid. case find (\<lambda>d. ObjectMeta.Name (CFDomain.ObjectMeta d) = guid) items of
                    None \<Rightarrow> Inl (StatusError StatusReasonNotFound)
                  | Some d \<Rightarrow> Inr d),
       DomainRepo.privilegedClient_List = Inr items \<rparr>"

definition deniedDomainRepo :: DomainRepo where
  "deniedDomainRepo =
     \<lparr> privilegedClient_Get = (\<lambda>guid. Inl (StatusError StatusReasonUnauthorized)),
       DomainRepo.privilegedClient_List = Inl (StatusError StatusReasonUnauthorized) \<rparr>"

definition sampleDomains :: "CFDomain list" where
  "sampleDomains =
     [sampleDomain ''d1'' ''example.com'' 5, sampleDomain ''d2'' ''example.com'' 3,
      sampleDomain ''d3'' ''example.org'' 1]"

section \<open>Orders and filters as the specification words them\<close>

text \<open>
  The comparison of two identifiers, byte by byte, as Go compares strings.
\<close>

fun stringLess :: "string \<Rightarrow> string \<Rightarrow> bool" where
  "stringLess [] [] = False"
| "stringLess [] (y # ys) = True"
| "stringLess (x # xs) [] = False"
| "stringLess (x # xs) (y # ys) =
     (if (of_char x :: nat) < of_char y then True
      else if (of_char x :: nat) = of_char y then stringLess xs ys
      else False)"

text \<open>
  The order of section 4.3 of the specification, in its words: by creation time
  ascending, two objects of equal creation time by their identifier. It is written
  independently of \<open>applyDomainListFilterAndOrder\<close>, to be compared with it.
\<close>

definition orderedByTimeThenIdentifier :: "CFDomain list \<Rightarrow> bool" where
  "orderedByTimeThenIdentifier ds =
     sorted_wrt
       (\<lambda>a b. domainTime a < domainTime b \<or>
              (domainTime a = domainTime b \<and>
               \<not> stringLess (ObjectMeta.Name (CFDomain.ObjectMeta b))
                             (ObjectMeta.Name (CFDomain.ObjectMeta a))))
       ds"

text \<open>
  A package record passes the filter of a message when its application is among the
  listed ones, or none is listed, and its state is among the listed ones, or none is
  listed. \<open>applyPackageFilter\<close> is shown below to keep exactly these records.
\<close>

definition matchesPackageFilter :: "ListPackagesMessage \<Rightarrow> PackageRecord \<Rightarrow> bool" where
  "matchesPackageFilter message p \<longleftrightarrow>
     (AppGUIDs message = [] \<or> PackageRecord.AppGUID p \<in> set (AppGUIDs message)) \<and>
     (States message = [] \<or> State p \<in> set (States message))"

definition samplePackage :: "string \<Rightarrow> string \<Rightarrow> string \<Rightarrow> string \<Rightarrow> int \<Rightarrow> CFPackage" where
  "samplePackage ns guid app img t =
     \<lparr> CFPackage.ObjectMeta = sampleMeta ns guid t,
       Spec = \<lparr> CFPackageSpec.Type = ''bits'', AppRef_Name = app,
                Source_Registry_Image = img \<rparr> \<rparr>"

definition samplePackageRepo :: "CFPackage list \<Rightarrow> PackageRepo" where
  "samplePackageRepo items = \<lparr> PackageRepo.privilegedClient_List = Inr items \<rparr>"

definition samplePackages :: "CFPackage list" where
  "samplePackages =
     [samplePackage ''space1'' ''p1'' ''a1'' ''registry/image'' 7,
      samplePackage ''space1'' ''p2'' ''a2'' [] 2,
      samplePackage ''space2'' ''p3'' ''a1'' [] 4]"

definition tiedDomains :: "CFDomain list" where
  "tiedDomains = [sampleDomain ''b'' ''one.example.com'' 1, sampleDomain ''a'' ''two.example.com'' 1]"

definition duplicatePackages :: "CFPackage list" where
  "duplicatePackages =
     [samplePackage ''space1'' ''p1'' ''a1'' [] 1, samplePackage ''space2'' ''p1'' ''a2'' [] 2]"

definition sampleRoute :: "string \<Rightarrow> string \<Rightarrow> string \<Rightarrow> Destination list \<Rightarrow> int \<Rightarrow> CFRoute" where
  "sampleRoute ns guid host dests t =
     \<lparr> CFRoute.ObjectMeta = sampleMeta ns guid t,
       Spec = \<lparr> CFRouteSpec.Host = host, Path = ''/test/route/path'', Protocol = ''http'',
                DomainRef_Name = ''domain1'', Destinations = dests \<rparr> \<rparr>"

definition duplicateRoutes :: RouteStore where
  "duplicateRoutes =
     \<lparr> routes = [sampleRoute ''default'' ''r1'' ''my-subdomain-1'' [] 1,
                 sampleRoute ''default'' ''r2'' ''my-subdomain-2'' [] 2,
                 sampleRoute ''other'' ''r1'' ''my-subdomain-1'' [] 3],
       clock = 4, issued = 0 \<rparr>"

text \<open>
  A factory environment to evaluate \<open>BuildClient\<close> on: the scheme of an \<open>Info\<close> is bearer
  when it has a token, client certificate when it has certificate data; lower-casing is
  that of ASCII letters; a PEM block is written between brackets; the client that
  \<open>NewWithWatch\<close> builds is the configuration it is given.
\<close>

definition asciiLower :: "char \<Rightarrow> char" where
  "asciiLower c =
     (if (65::nat) \<le> of_char c \<and> of_char c \<le> (90::nat)
      then char_of (of_char c + (32::nat)) else c)"

definition bracketDecode :: "string \<Rightarrow> string option \<times> string" where
  "bracketDecode s =
     (case s of
        [] \<Rightarrow> (None, s)
      | c # rest \<Rightarrow>
          if c = CHR ''['' \<and> CHR '']'' \<in> set rest
          then (Some (takeWhile (\<lambda>x. x \<noteq> CHR '']'') rest),
                tl (dropWhile (\<lambda>x. x \<noteq> CHR '']'') rest))
          else (None, s))"

definition sampleFactoryDeps :: "(string, unit, Config) factoryDeps" where
  "sampleFactoryDeps =
     \<lparr> Scheme = (\<lambda>info. if Token info \<noteq> [] then ''bearer''
                        else if Info.CertData info \<noteq> [] then ''clientcert''
                        else ''unknown''),
       BearerScheme = ''bearer'',
       CertScheme = ''clientcert'',
       ToLower = map asciiLower,
       pem_Decode = bracketDecode,
       pem_EncodeToMemory = (\<lambda>b. CHR ''['' # b @ '']''),
       NewWithWatch = (\<lambda>cfg m. Inr cfg),
       FromK8sError = (\<lambda>err resourceType. err) \<rparr>"

definition sampleFactory :: "unit UnprivilegedClientFactory" where
  "sampleFactory =
     \<lparr> config = \<lparr> Config.Host = ''https://store.example'', BearerToken = [],
                  Config.CertData = [],
                  KeyData = [] \<rparr>,
       mapper = () \<rparr>"









section \<open>Properties of the sort\<close>

lemma mset_insertLeft: "mset (insertLeft f x ys) = add_mset x (mset ys)"
  by (induction ys) auto

lemma mset_insertionSort: "mset (insertionSort f acc xs) = mset acc + mset xs"
  by (induction xs arbitrary: acc) (auto simp: mset_insertLeft)

lemma mset_sort_Slice: "mset (sort_Slice f xs) = mset xs"
  by (simp add: sort_Slice_def mset_insertionSort)

lemma set_sort_Slice: "set (sort_Slice f xs) = set xs"
  using mset_sort_Slice [of f xs] by (metis set_mset_mset)

lemma length_sort_Slice: "length (sort_Slice f xs) = length xs"
  using mset_sort_Slice [of f xs] by (metis size_mset)

text \<open>
  The prefix is kept sorted, read from right to left, for every relation \<open>R\<close> that the
  comparison decides: \<open>f x y\<close> puts \<open>x\<close> to the left of \<open>y\<close>, its failure leaves \<open>x\<close> to
  the right.
\<close>

lemma sorted_insertLeft:
  assumes "transp R"
    and "\<And>a b. f a b \<Longrightarrow> R b a"
    and "\<And>a b. \<not> f a b \<Longrightarrow> R a b"
    and "sorted_wrt R ys"
  shows "sorted_wrt R (insertLeft f x ys)"
  using assms(4)
proof (induction ys)
  case Nil
  then show ?case by simp
next
  case (Cons y ys)
  show ?case
  proof (cases "f x y")
    case True
    have "set (insertLeft f x ys) = insert x (set ys)"
      using mset_insertLeft [of f x ys] by (metis set_mset_mset set_mset_add_mset_insert)
    with True Cons assms(2) show ?thesis by auto
  next
    case False
    then have xy: "R x y" by (rule assms(3))
    have "R x z" if "z \<in> set ys" for z
      using that Cons.prems xy assms(1) by (auto dest: transpD)
    with False xy Cons.prems show ?thesis by auto
  qed
qed

lemma sorted_insertionSort:
  assumes "transp R"
    and "\<And>a b. f a b \<Longrightarrow> R b a"
    and "\<And>a b. \<not> f a b \<Longrightarrow> R a b"
    and "sorted_wrt R acc"
  shows "sorted_wrt R (insertionSort f acc xs)"
  using assms(4)
proof (induction xs arbitrary: acc)
  case Nil
  then show ?case by simp
next
  case (Cons x xs)
  have "sorted_wrt R (insertLeft f x acc)"
    using assms(1) assms(2) assms(3) Cons.prems by (rule sorted_insertLeft)
  then show ?case using Cons.IH by simp
qed

lemma sorted_sort_Slice:
  assumes "transp R"
    and "\<And>a b. f a b \<Longrightarrow> R b a"
    and "\<And>a b. \<not> f a b \<Longrightarrow> R a b"
  shows "sorted_wrt (\<lambda>a b. R b a) (sort_Slice f xs)"
proof -
  have "sorted_wrt R (insertionSort f [] xs)"
    using assms by (intro sorted_insertionSort) auto
  then show ?thesis by (simp add: sort_Slice_def sorted_wrt_rev)
qed

lemma sorted_domains: "sorted_wrt (\<lambda>a b. domainTime a \<le> domainTime b) (sort_Slice domainBefore xs)"
proof -
  have "sorted_wrt (\<lambda>a b. (\<lambda>u v. domainTime v \<le> domainTime u) b a) (sort_Slice domainBefore xs)"
    by (rule sorted_sort_Slice) (auto simp: transp_def domainBefore_def domainTime_def)
  then show ?thesis by simp
qed

section \<open>Domain repository: errors of a get\<close>

text \<open>
  C1. When the store call of \<open>GetDomain\<close> fails with a status error whose reason is
  "not found" or "unauthorized", the operation fails with a
  \<open>PermissionDeniedOrNotFoundError\<close> for the resource type "Domain", which wraps the
  store error; its kind is \<open>PermissionDeniedOrNotFound\<close> for either reason, so the two
  cases are not told apart by kind.
\<close>

theorem GetDomain_not_found_or_unauthorized:
  assumes "privilegedClient_Get r domainGUID = Inl (StatusError reason)"
    and "reason = StatusReasonNotFound \<or> reason = StatusReasonUnauthorized"
  shows "GetDomain h r domainGUID
           = Inl (PermissionDeniedOrNotFoundError (Some (StatusError reason)) ''Domain'')
         \<and> failureKind (GetDomain h r domainGUID) = Some PermissionDeniedOrNotFound"
  using assms by (auto simp: GetDomain_def failureKind_def)

theorem GetDomain_not_found_or_unauthorized_witness:
  "GetDomain sampleDeps deniedDomainRepo ''d1''
     = Inl (PermissionDeniedOrNotFoundError (Some (StatusError StatusReasonUnauthorized))
              ''Domain'')
   \<and> failureKind (GetDomain sampleDeps deniedDomainRepo ''d1'')
     = Some PermissionDeniedOrNotFound"
proof -
  have get: "privilegedClient_Get deniedDomainRepo ''d1''
               = Inl (StatusError StatusReasonUnauthorized)"
    by (simp add: deniedDomainRepo_def)
  have reason: "StatusReasonUnauthorized = StatusReasonNotFound
                  \<or> StatusReasonUnauthorized = StatusReasonUnauthorized"
    by simp
  show ?thesis
    by (rule GetDomain_not_found_or_unauthorized [OF get reason])
qed

section \<open>Domain repository: the name filter\<close>

lemma mset_appendMatches:
  "mset (appendMatches d names)
     = replicate_mset (count_list names (CFDomainSpec.Name (CFDomain.Spec d))) d"
  by (induction names) auto

lemma count_filterDomains:
  "count (mset (filterDomains ds names)) d
     = count (mset ds) d * count_list names (CFDomainSpec.Name (CFDomain.Spec d))"
  by (induction ds) (auto simp: mset_appendMatches)

lemma filterDomains_single:
  "filterDomains ds [n] = filter (\<lambda>d. CFDomainSpec.Name (CFDomain.Spec d) = n) ds"
  by (induction ds) auto

lemma filterDomains_no_match:
  "\<forall>d \<in> set ds. CFDomainSpec.Name (CFDomain.Spec d) \<notin> set names \<Longrightarrow> filterDomains ds names = []"
proof (induction ds)
  case Nil
  then show ?case by simp
next
  case (Cons d ds)
  have "appendMatches d ns = []" if "CFDomainSpec.Name (CFDomain.Spec d) \<notin> set ns" for ns
    using that by (induction ns) auto
  with Cons show ?case by simp
qed

lemma sort_Slice_Nil: "sort_Slice f [] = []"
  by (simp add: sort_Slice_def)

lemma ListDomains_Inr:
  "DomainRepo.privilegedClient_List r = Inr items \<Longrightarrow>
   ListDomains h r message
     = Inr (map (cfDomainToDomainRecord h) (applyDomainListFilterAndOrder items message))"
  by (simp add: ListDomains_def returnDomainList_def)

text \<open>
  C10. When the filter of \<open>ListDomains\<close> names at least one value, the list that is mapped
  to the returned records holds every store object as many times as its name occurs in
  the filter: a name given \<open>n\<close> times yields \<open>n\<close> records for each domain of that name.
\<close>

theorem ListDomains_repeats_per_filter_entry:
  assumes "DomainRepo.privilegedClient_List r = Inr items"
    and "Names message \<noteq> []"
  shows "ListDomains h r message
           = Inr (map (cfDomainToDomainRecord h) (applyDomainListFilterAndOrder items message))
         \<and> count (mset (applyDomainListFilterAndOrder items message)) d
           = count (mset items) d
               * count_list (Names message) (CFDomainSpec.Name (CFDomain.Spec d))"
proof -
  have "applyDomainListFilterAndOrder items message
          = sort_Slice domainBefore (filterDomains items (Names message))"
    using assms(2) by (simp add: applyDomainListFilterAndOrder_def)
  then have "mset (applyDomainListFilterAndOrder items message)
          = mset (filterDomains items (Names message))"
    by (simp add: mset_sort_Slice)
  then show ?thesis
    using ListDomains_Inr [OF assms(1)] by (simp add: count_filterDomains)
qed

theorem ListDomains_repeats_per_filter_entry_witness:
  "ListDomains sampleDeps (sampleDomainRepo
       [sampleDomain ''d1'' ''example.com'' 3, sampleDomain ''d2'' ''example.org'' 1])
     \<lparr> Names = [''example.com'', ''example.com''] \<rparr>
     = Inr [cfDomainToDomainRecord sampleDeps (sampleDomain ''d1'' ''example.com'' 3),
            cfDomainToDomainRecord sampleDeps (sampleDomain ''d1'' ''example.com'' 3)]"
proof -
  let ?items = "[sampleDomain ''d1'' ''example.com'' 3, sampleDomain ''d2'' ''example.org'' 1]"
  let ?r = "sampleDomainRepo ?items"
  let ?m = "\<lparr> Names = [''example.com'', ''example.com''] \<rparr>"
  have l: "DomainRepo.privilegedClient_List ?r = Inr ?items"
    by (simp add: sampleDomainRepo_def)
  have n: "Names ?m \<noteq> []" by simp
  have "applyDomainListFilterAndOrder ?items ?m
          = [sampleDomain ''d1'' ''example.com'' 3, sampleDomain ''d1'' ''example.com'' 3]"
    by (simp add: applyDomainListFilterAndOrder_def sort_Slice_def sampleDomain_def
          domainBefore_def sampleMeta_def)
  then show ?thesis
    using ListDomains_repeats_per_filter_entry [OF l n, of sampleDeps] by simp
qed

text \<open>
  C9. When two or more domains of the store carry the requested name, \<open>GetDomainByName\<close>
  succeeds: it returns the record of a domain of that name whose creation time is the
  earliest among the domains of that name, and signals no duplicate.
\<close>

theorem GetDomainByName_picks_earliest_match:
  assumes "DomainRepo.privilegedClient_List r = Inr items"
    and "2 \<le> length (filter (\<lambda>d. CFDomainSpec.Name (CFDomain.Spec d) = domainName) items)"
  shows "\<exists>d \<in> set items.
           CFDomainSpec.Name (CFDomain.Spec d) = domainName
         \<and> (\<forall>d' \<in> set items. CFDomainSpec.Name (CFDomain.Spec d') = domainName
                \<longrightarrow> domainTime d \<le> domainTime d')
         \<and> GetDomainByName h r domainName = Inr (cfDomainToDomainRecord h d)"
proof -
  let ?fs = "filter (\<lambda>d. CFDomainSpec.Name (CFDomain.Spec d) = domainName) items"
  let ?ss = "sort_Slice domainBefore ?fs"
  have applied: "applyDomainListFilterAndOrder items \<lparr> Names = [domainName] \<rparr> = ?ss"
    by (simp add: applyDomainListFilterAndOrder_def filterDomains_single)
  have "length ?ss = length ?fs" by (rule length_sort_Slice)
  with assms(2) obtain d rest where ss: "?ss = d # rest"
    by (cases ?ss) auto
  have "set ?ss = set ?fs" by (rule set_sort_Slice)
  with ss have d_in: "d \<in> set ?fs" and rest_in: "set rest \<subseteq> insert d (set rest)"
    and all_in: "set ?fs = insert d (set rest)"
    by auto
  have "sorted_wrt (\<lambda>a b. domainTime a \<le> domainTime b) (d # rest)"
    using sorted_domains [of ?fs] ss by simp
  then have least: "domainTime d \<le> domainTime d'" if "d' \<in> set ?fs" for d'
    using that all_in by auto
  have "GetDomainByName h r domainName = Inr (cfDomainToDomainRecord h d)"
    using ListDomains_Inr [OF assms(1), of h "\<lparr> Names = [domainName] \<rparr>"] applied ss
    by (simp add: GetDomainByName_def)
  with d_in least show ?thesis by auto
qed

theorem GetDomainByName_picks_earliest_match_witness:
  "\<exists>d \<in> set [sampleDomain ''d1'' ''example.com'' 5, sampleDomain ''d2'' ''example.com'' 3].
      CFDomainSpec.Name (CFDomain.Spec d) = ''example.com''
    \<and> (\<forall>d' \<in> set [sampleDomain ''d1'' ''example.com'' 5, sampleDomain ''d2'' ''example.com'' 3].
           CFDomainSpec.Name (CFDomain.Spec d') = ''example.com''
           \<longrightarrow> domainTime d \<le> domainTime d')
    \<and> GetDomainByName sampleDeps
         (sampleDomainRepo
            [sampleDomain ''d1'' ''example.com'' 5, sampleDomain ''d2'' ''example.com'' 3])
         ''example.com''
       = Inr (cfDomainToDomainRecord sampleDeps d)"
proof -
  let ?items = "[sampleDomain ''d1'' ''example.com'' 5, sampleDomain ''d2'' ''example.com'' 3]"
  let ?r = "sampleDomainRepo ?items"
  have l: "DomainRepo.privilegedClient_List ?r = Inr ?items"
    by (simp add: sampleDomainRepo_def)
  have two: "2 \<le> length (filter (\<lambda>d. CFDomainSpec.Name (CFDomain.Spec d) = ''example.com'') ?items)"
    by (simp add: sampleDomain_def)
  show ?thesis
    by (rule GetDomainByName_picks_earliest_match [OF l two])
qed

section \<open>Ordering and filtering of lists\<close>

lemma sorted_packages_ascending:
  assumes "\<not> (SortBy message = ''created_at'' \<and> DescendingOrder message)"
  shows "sorted_wrt (\<lambda>a b. packageTime a \<le> packageTime b) (orderPackages ps message)"
proof -
  have "sorted_wrt (\<lambda>a b. (\<lambda>u v. packageTime v \<le> packageTime u) b a)
          (sort_Slice (packageLess message) ps)"
    using assms
    by (intro sorted_sort_Slice)
       (auto simp: transp_def packageLess_def packageBefore_def packageTime_def)
  then show ?thesis by (simp add: orderPackages_def)
qed

lemma sorted_packages_descending:
  assumes "SortBy message = ''created_at'' \<and> DescendingOrder message"
  shows "sorted_wrt (\<lambda>a b. packageTime b \<le> packageTime a) (orderPackages ps message)"
proof -
  have "sorted_wrt (\<lambda>a b. (\<lambda>u v. packageTime u \<le> packageTime v) b a)
          (sort_Slice (packageLess message) ps)"
    using assms
    by (intro sorted_sort_Slice)
       (auto simp: transp_def packageLess_def packageBefore_def packageTime_def)
  then show ?thesis by (simp add: orderPackages_def)
qed

lemma mset_orderPackages: "mset (orderPackages ps message) = mset ps"
  by (simp add: orderPackages_def mset_sort_Slice)

lemma anyEqual_iff: "anyEqual v ws \<longleftrightarrow> v \<in> set ws"
  by (induction ws) auto

lemma applyPackageFilter_eq:
  "applyPackageFilter records message = filter (matchesPackageFilter message) records"
  by (auto simp: applyPackageFilter_def matchesPackageFilter_def anyEqual_iff
           intro: filter_cong)

lemma ListPackages_Inr:
  "PackageRepo.privilegedClient_List pr = Inr packages \<Longrightarrow>
   ListPackages h pr message
     = Inr (map (cfPackageToPackageRecord h)
              (filter (\<lambda>p. matchesPackageFilter message (cfPackageToPackageRecord h p))
                 (orderPackages packages message)))"
  by (simp add: ListPackages_def convertToPackageRecords_def applyPackageFilter_eq
        filter_map comp_def)

lemma sorted_orderPackages:
  "sorted_wrt
     (\<lambda>a b. if SortBy pm = ''created_at'' \<and> DescendingOrder pm
            then packageTime b \<le> packageTime a
            else packageTime a \<le> packageTime b)
     (orderPackages packages pm)"
proof (cases "SortBy pm = ''created_at'' \<and> DescendingOrder pm")
  case True
  then show ?thesis using sorted_packages_descending [OF True, of packages] by simp
next
  case False
  then have "(\<lambda>a b. if SortBy pm = ''created_at'' \<and> DescendingOrder pm
                    then packageTime b \<le> packageTime a
                    else packageTime a \<le> packageTime b)
              = (\<lambda>a b. packageTime a \<le> packageTime b)"
    by (intro ext) auto
  then show ?thesis using sorted_packages_ascending [OF False, of packages] by simp
qed

text \<open>
  C7, as the code has it. With no name in the filter, \<open>ListDomains\<close> returns the records
  of the whole collection, in ascending order of creation time. With no application and
  no state in the filter, \<open>ListPackages\<close> returns the records of the whole collection
  too, in ascending order of creation time unless the message sorts by
  \<^verbatim>\<open>created_at\<close> with \<^verbatim>\<open>DescendingOrder\<close> set, and in descending order then. With a
  filter that no object of the collection passes, both return the empty list and no
  error.
\<close>

theorem empty_filter_lists_all_and_unmatched_filter_lists_none:
  assumes "DomainRepo.privilegedClient_List r = Inr items"
    and "PackageRepo.privilegedClient_List pr = Inr packages"
    and "Names dm \<noteq> []"
    and "\<forall>d \<in> set items. CFDomainSpec.Name (CFDomain.Spec d) \<notin> set (Names dm)"
    and "\<forall>p \<in> set packages. \<not> matchesPackageFilter pm (cfPackageToPackageRecord h p)"
  shows "ListDomains h r \<lparr> Names = [] \<rparr>
           = Inr (map (cfDomainToDomainRecord h) (sort_Slice domainBefore items))
         \<and> mset (sort_Slice domainBefore items) = mset items
         \<and> sorted_wrt (\<lambda>a b. domainTime a \<le> domainTime b) (sort_Slice domainBefore items)
         \<and> ListDomains h r dm = Inr []
         \<and> ListPackages h pr
             \<lparr> AppGUIDs = [], SortBy = sortBy, DescendingOrder = descending, States = [] \<rparr>
           = Inr (map (cfPackageToPackageRecord h)
                    (orderPackages packages
                       \<lparr> AppGUIDs = [], SortBy = sortBy, DescendingOrder = descending,
                         States = [] \<rparr>))
         \<and> mset (orderPackages packages
                    \<lparr> AppGUIDs = [], SortBy = sortBy, DescendingOrder = descending,
                      States = [] \<rparr>)
           = mset packages
         \<and> sorted_wrt
              (\<lambda>a b. if sortBy = ''created_at'' \<and> descending
                     then packageTime b \<le> packageTime a
                     else packageTime a \<le> packageTime b)
              (orderPackages packages
                 \<lparr> AppGUIDs = [], SortBy = sortBy, DescendingOrder = descending,
                   States = [] \<rparr>)
         \<and> ListPackages h pr pm = Inr []"
proof -
  let ?em = "\<lparr> AppGUIDs = [], SortBy = sortBy, DescendingOrder = descending, States = [] \<rparr>"
  have d_all: "ListDomains h r \<lparr> Names = [] \<rparr>
                 = Inr (map (cfDomainToDomainRecord h) (sort_Slice domainBefore items))"
    using ListDomains_Inr [OF assms(1), of h "\<lparr> Names = [] \<rparr>"]
    by (simp add: applyDomainListFilterAndOrder_def)
  have d_mset: "mset (sort_Slice domainBefore items) = mset items"
    by (rule mset_sort_Slice)
  have d_sorted: "sorted_wrt (\<lambda>a b. domainTime a \<le> domainTime b)
                    (sort_Slice domainBefore items)"
    by (rule sorted_domains)
  have "applyDomainListFilterAndOrder items dm = []"
    using assms(3) filterDomains_no_match [OF assms(4)]
    by (simp add: applyDomainListFilterAndOrder_def sort_Slice_Nil)
  then have d_none: "ListDomains h r dm = Inr []"
    using ListDomains_Inr [OF assms(1), of h dm] by simp
  have "matchesPackageFilter ?em q" for q
    by (simp add: matchesPackageFilter_def)
  then have p_all: "ListPackages h pr ?em
                 = Inr (map (cfPackageToPackageRecord h) (orderPackages packages ?em))"
    using ListPackages_Inr [OF assms(2), of h ?em] by simp
  have p_mset: "mset (orderPackages packages ?em) = mset packages"
    by (rule mset_orderPackages)
  have p_sorted: "sorted_wrt
                    (\<lambda>a b. if sortBy = ''created_at'' \<and> descending
                           then packageTime b \<le> packageTime a
                           else packageTime a \<le> packageTime b)
                    (orderPackages packages ?em)"
    using sorted_orderPackages [of ?em packages] by simp
  have "set (orderPackages packages pm) = set packages"
    using mset_orderPackages [of packages pm] by (metis set_mset_mset)
  with assms(5) have "filter (\<lambda>p. matchesPackageFilter pm (cfPackageToPackageRecord h p))
                        (orderPackages packages pm) = []"
    by (simp add: filter_empty_conv)
  then have p_none: "ListPackages h pr pm = Inr []"
    using ListPackages_Inr [OF assms(2), of h pm] by simp
  from d_all d_mset d_sorted d_none p_all p_mset p_sorted p_none show ?thesis
    by blast
qed

theorem empty_filter_lists_all_and_unmatched_filter_lists_none_witness:
  "ListDomains sampleDeps (sampleDomainRepo sampleDomains) \<lparr> Names = [] \<rparr>
     = Inr (map (cfDomainToDomainRecord sampleDeps) (sort_Slice domainBefore sampleDomains))
   \<and> mset (sort_Slice domainBefore sampleDomains) = mset sampleDomains
   \<and> sorted_wrt (\<lambda>a b. domainTime a \<le> domainTime b) (sort_Slice domainBefore sampleDomains)
   \<and> ListDomains sampleDeps (sampleDomainRepo sampleDomains) \<lparr> Names = [''example.net''] \<rparr>
     = Inr []
   \<and> ListPackages sampleDeps (samplePackageRepo samplePackages)
       \<lparr> AppGUIDs = [], SortBy = ''created_at'', DescendingOrder = True, States = [] \<rparr>
     = Inr (map (cfPackageToPackageRecord sampleDeps)
              (orderPackages samplePackages
                 \<lparr> AppGUIDs = [], SortBy = ''created_at'', DescendingOrder = True,
                   States = [] \<rparr>))
   \<and> mset (orderPackages samplePackages
              \<lparr> AppGUIDs = [], SortBy = ''created_at'', DescendingOrder = True,
                States = [] \<rparr>)
     = mset samplePackages
   \<and> sorted_wrt
        (\<lambda>a b. if ''created_at'' = ''created_at'' \<and> True
               then packageTime b \<le> packageTime a
               else packageTime a \<le> packageTime b)
        (orderPackages samplePackages
           \<lparr> AppGUIDs = [], SortBy = ''created_at'', DescendingOrder = True,
             States = [] \<rparr>)
   \<and> ListPackages sampleDeps (samplePackageRepo samplePackages)
       \<lparr> AppGUIDs = [''a3''], SortBy = [], DescendingOrder = False, States = [''READY''] \<rparr>
     = Inr []"
proof -
  let ?dm = "\<lparr> Names = [''example.net''] \<rparr>"
  let ?pm = "\<lparr> AppGUIDs = [''a3''], SortBy = [], DescendingOrder = False,
               States = [''READY''] \<rparr>"
  have a1: "DomainRepo.privilegedClient_List (sampleDomainRepo sampleDomains) = Inr sampleDomains"
    by (simp add: sampleDomainRepo_def)
  have a2: "PackageRepo.privilegedClient_List (samplePackageRepo samplePackages)
              = Inr samplePackages"
    by (simp add: samplePackageRepo_def)
  have a3: "Names ?dm \<noteq> []" by simp
  have a4: "\<forall>d \<in> set sampleDomains. CFDomainSpec.Name (CFDomain.Spec d) \<notin> set (Names ?dm)"
    by (simp add: sampleDomains_def sampleDomain_def)
  have a5: "\<forall>p \<in> set samplePackages.
              \<not> matchesPackageFilter ?pm (cfPackageToPackageRecord sampleDeps p)"
    by (simp add: samplePackages_def samplePackage_def matchesPackageFilter_def
          cfPackageToPackageRecord_def sampleMeta_def)
  show ?thesis
    by (rule empty_filter_lists_all_and_unmatched_filter_lists_none [OF a1 a2 a3 a4 a5])
qed

text \<open>
  C7, as stated, fails for a package list whose filter is empty and whose message
  requests the descending order: the three packages of the collection, created at 7, 2
  and 4, are all returned, in the order 7, 4, 2, which is not ascending.
\<close>

theorem empty_filter_descending_request_is_not_ascending:
  "ListPackages sampleDeps (samplePackageRepo samplePackages)
       \<lparr> AppGUIDs = [], SortBy = ''created_at'', DescendingOrder = True, States = [] \<rparr>
     = Inr (map (cfPackageToPackageRecord sampleDeps)
              [samplePackage ''space1'' ''p1'' ''a1'' ''registry/image'' 7,
               samplePackage ''space2'' ''p3'' ''a1'' [] 4,
               samplePackage ''space1'' ''p2'' ''a2'' [] 2])
   \<and> \<not> sorted_wrt (\<lambda>a b. packageTime a \<le> packageTime b)
         (orderPackages samplePackages
            \<lparr> AppGUIDs = [], SortBy = ''created_at'', DescendingOrder = True,
              States = [] \<rparr>)"
proof -
  let ?m = "\<lparr> AppGUIDs = [], SortBy = ''created_at'', DescendingOrder = True, States = [] \<rparr>"
  have ordered: "orderPackages samplePackages ?m
          = [samplePackage ''space1'' ''p1'' ''a1'' ''registry/image'' 7,
             samplePackage ''space2'' ''p3'' ''a1'' [] 4,
             samplePackage ''space1'' ''p2'' ''a2'' [] 2]"
    by (simp add: orderPackages_def sort_Slice_def samplePackages_def packageLess_def
          packageBefore_def samplePackage_def sampleMeta_def)
  have "matchesPackageFilter ?m q" for q
    by (simp add: matchesPackageFilter_def)
  then have "ListPackages sampleDeps (samplePackageRepo samplePackages) ?m
          = Inr (map (cfPackageToPackageRecord sampleDeps) (orderPackages samplePackages ?m))"
    by (simp add: ListPackages_def samplePackageRepo_def convertToPackageRecords_def
          applyPackageFilter_eq)
  moreover have "\<not> sorted_wrt (\<lambda>a b. packageTime a \<le> packageTime b)
                     (orderPackages samplePackages ?m)"
    unfolding ordered by (simp add: packageTime_def samplePackage_def sampleMeta_def)
  ultimately show ?thesis unfolding ordered by blast
qed

text \<open>
  C2, as the code has it. The list that \<open>ListDomains\<close> maps to records is in ascending
  order of creation time, and the domain filter has no option for another order. The
  list that \<open>ListPackages\<close> maps to records is in descending order of creation time when
  the message sorts by \<^verbatim>\<open>created_at\<close> with \<^verbatim>\<open>DescendingOrder\<close> set, and in ascending
  order otherwise. Nothing is promised on the order of two objects created at the same
  time.
\<close>

theorem lists_ordered_by_creation_time:
  assumes "DomainRepo.privilegedClient_List r = Inr items"
    and "PackageRepo.privilegedClient_List pr = Inr packages"
  shows "ListDomains h r dm
           = Inr (map (cfDomainToDomainRecord h) (applyDomainListFilterAndOrder items dm))
         \<and> sorted_wrt (\<lambda>a b. domainTime a \<le> domainTime b)
              (applyDomainListFilterAndOrder items dm)
         \<and> ListPackages h pr pm
           = Inr (map (cfPackageToPackageRecord h)
                    (filter (\<lambda>p. matchesPackageFilter pm (cfPackageToPackageRecord h p))
                       (orderPackages packages pm)))
         \<and> sorted_wrt
              (\<lambda>a b. if SortBy pm = ''created_at'' \<and> DescendingOrder pm
                     then packageTime b \<le> packageTime a
                     else packageTime a \<le> packageTime b)
              (filter (\<lambda>p. matchesPackageFilter pm (cfPackageToPackageRecord h p))
                 (orderPackages packages pm))"
proof -
  have d_sorted: "sorted_wrt (\<lambda>a b. domainTime a \<le> domainTime b)
                    (applyDomainListFilterAndOrder items dm)"
    by (simp add: applyDomainListFilterAndOrder_def Let_def sorted_domains)
  have "sorted_wrt
          (\<lambda>a b. if SortBy pm = ''created_at'' \<and> DescendingOrder pm
                 then packageTime b \<le> packageTime a
                 else packageTime a \<le> packageTime b)
          (orderPackages packages pm)"
  proof (cases "SortBy pm = ''created_at'' \<and> DescendingOrder pm")
    case True
    then show ?thesis using sorted_packages_descending [OF True, of packages] by simp
  next
    case False
    then have "(\<lambda>a b. if SortBy pm = ''created_at'' \<and> DescendingOrder pm
                      then packageTime b \<le> packageTime a
                      else packageTime a \<le> packageTime b)
                = (\<lambda>a b. packageTime a \<le> packageTime b)"
      by (intro ext) auto
    then show ?thesis using sorted_packages_ascending [OF False, of packages] by simp
  qed
  then have p_sorted: "sorted_wrt
          (\<lambda>a b. if SortBy pm = ''created_at'' \<and> DescendingOrder pm
                 then packageTime b \<le> packageTime a
                 else packageTime a \<le> packageTime b)
          (filter (\<lambda>p. matchesPackageFilter pm (cfPackageToPackageRecord h p))
             (orderPackages packages pm))"
    by (rule sorted_wrt_filter)
  from ListDomains_Inr [OF assms(1), of h dm] d_sorted
       ListPackages_Inr [OF assms(2), of h pm] p_sorted
  show ?thesis by blast
qed

theorem lists_ordered_by_creation_time_witness:
  "ListDomains sampleDeps (sampleDomainRepo sampleDomains) \<lparr> Names = [''example.com''] \<rparr>
     = Inr (map (cfDomainToDomainRecord sampleDeps)
              (applyDomainListFilterAndOrder sampleDomains \<lparr> Names = [''example.com''] \<rparr>))
   \<and> sorted_wrt (\<lambda>a b. domainTime a \<le> domainTime b)
        (applyDomainListFilterAndOrder sampleDomains \<lparr> Names = [''example.com''] \<rparr>)
   \<and> ListPackages sampleDeps (samplePackageRepo samplePackages)
       \<lparr> AppGUIDs = [''a1''], SortBy = ''created_at'', DescendingOrder = True, States = [] \<rparr>
     = Inr (map (cfPackageToPackageRecord sampleDeps)
              (filter (\<lambda>p. matchesPackageFilter
                              \<lparr> AppGUIDs = [''a1''], SortBy = ''created_at'',
                                DescendingOrder = True, States = [] \<rparr>
                              (cfPackageToPackageRecord sampleDeps p))
                 (orderPackages samplePackages
                    \<lparr> AppGUIDs = [''a1''], SortBy = ''created_at'', DescendingOrder = True,
                      States = [] \<rparr>)))
   \<and> sorted_wrt
        (\<lambda>a b. if SortBy \<lparr> AppGUIDs = [''a1''], SortBy = ''created_at'',
                            DescendingOrder = True, States = [] \<rparr> = ''created_at''
                   \<and> DescendingOrder \<lparr> AppGUIDs = [''a1''], SortBy = ''created_at'',
                                        DescendingOrder = True, States = [] \<rparr>
               then packageTime b \<le> packageTime a
               else packageTime a \<le> packageTime b)
        (filter (\<lambda>p. matchesPackageFilter
                        \<lparr> AppGUIDs = [''a1''], SortBy = ''created_at'',
                          DescendingOrder = True, States = [] \<rparr>
                        (cfPackageToPackageRecord sampleDeps p))
           (orderPackages samplePackages
              \<lparr> AppGUIDs = [''a1''], SortBy = ''created_at'', DescendingOrder = True,
                States = [] \<rparr>))"
proof -
  have a1: "DomainRepo.privilegedClient_List (sampleDomainRepo sampleDomains) = Inr sampleDomains"
    by (simp add: sampleDomainRepo_def)
  have a2: "PackageRepo.privilegedClient_List (samplePackageRepo samplePackages)
              = Inr samplePackages"
    by (simp add: samplePackageRepo_def)
  show ?thesis
    by (rule lists_ordered_by_creation_time [OF a1 a2])
qed

text \<open>
  C2, as stated, fails where it orders objects of equal creation time by identifier.
  Two domains created at the same time, listed by the store as \<open>b\<close>, \<open>a\<close>, are returned in
  that order: the list is not in the order of creation time and then identifier.
\<close>

theorem ties_not_ordered_by_identifier:
  "ListDomains sampleDeps (sampleDomainRepo tiedDomains) \<lparr> Names = [] \<rparr>
     = Inr [cfDomainToDomainRecord sampleDeps (sampleDomain ''b'' ''one.example.com'' 1),
            cfDomainToDomainRecord sampleDeps (sampleDomain ''a'' ''two.example.com'' 1)]
   \<and> \<not> orderedByTimeThenIdentifier
         (applyDomainListFilterAndOrder tiedDomains \<lparr> Names = [] \<rparr>)"
proof -
  have sorted: "applyDomainListFilterAndOrder tiedDomains \<lparr> Names = [] \<rparr>
          = [sampleDomain ''b'' ''one.example.com'' 1, sampleDomain ''a'' ''two.example.com'' 1]"
    by (simp add: applyDomainListFilterAndOrder_def tiedDomains_def sort_Slice_def
          domainBefore_def sampleDomain_def sampleMeta_def)
  have "ListDomains sampleDeps (sampleDomainRepo tiedDomains) \<lparr> Names = [] \<rparr>
     = Inr [cfDomainToDomainRecord sampleDeps (sampleDomain ''b'' ''one.example.com'' 1),
            cfDomainToDomainRecord sampleDeps (sampleDomain ''a'' ''two.example.com'' 1)]"
    by (simp add: ListDomains_def returnDomainList_def sampleDomainRepo_def sorted)
  moreover have "\<not> orderedByTimeThenIdentifier
         (applyDomainListFilterAndOrder tiedDomains \<lparr> Names = [] \<rparr>)"
    by (simp add: sorted orderedByTimeThenIdentifier_def domainTime_def sampleDomain_def
          sampleMeta_def)
  ultimately show ?thesis by blast
qed

section \<open>Get by identifier: duplicates\<close>

text \<open>
  C5. When more than one package of the store, in whatever namespaces, carries the
  requested identifier, \<open>GetPackage\<close> fails with the error "duplicate packages exist";
  likewise \<open>GetRoute\<close> fails with "duplicate route GUID exists" when more than one route
  carries it. Neither failure is a \<open>PermissionDeniedOrNotFoundError\<close>, and neither
  operation returns a record.
\<close>

theorem duplicate_identifier_is_an_error:
  assumes "PackageRepo.privilegedClient_List pr = Inr packages"
    and "1 < length (filter (\<lambda>p. ObjectMeta.Name (CFPackage.ObjectMeta p) = guid) packages)"
    and "1 < length (filter (\<lambda>cur. ObjectMeta.Name (CFRoute.ObjectMeta cur) = routeGUID)
                       (routes st))"
  shows "GetPackage h pr guid = Inl (ErrorString ''duplicate packages exist'')
         \<and> failureKind (GetPackage h pr guid) \<noteq> Some PermissionDeniedOrNotFound
         \<and> GetRoute h st routeGUID = Inl (ErrorString ''duplicate route GUID exists'')
         \<and> failureKind (GetRoute h st routeGUID) \<noteq> Some PermissionDeniedOrNotFound"
proof -
  let ?pm = "filter (\<lambda>p. ObjectMeta.Name (CFPackage.ObjectMeta p) = guid) packages"
  let ?rm = "filter (\<lambda>cur. ObjectMeta.Name (CFRoute.ObjectMeta cur) = routeGUID) (routes st)"
  from assms(2) have "length ?pm \<noteq> 0" by linarith
  with assms(1) assms(2)
  have pk: "GetPackage h pr guid = Inl (ErrorString ''duplicate packages exist'')"
    by (simp add: GetPackage_def returnPackage_def filterPackagesByMetadataName_def)
  from assms(3) have "length ?rm \<noteq> 0" by linarith
  with assms(3)
  have rt: "GetRoute h st routeGUID = Inl (ErrorString ''duplicate route GUID exists'')"
    by (simp add: GetRoute_def Let_def)
  show ?thesis
    by (simp add: pk rt failureKind_def)
qed

theorem duplicate_identifier_is_an_error_witness:
  "GetPackage sampleDeps (samplePackageRepo duplicatePackages) ''p1''
     = Inl (ErrorString ''duplicate packages exist'')
   \<and> failureKind (GetPackage sampleDeps (samplePackageRepo duplicatePackages) ''p1'')
     \<noteq> Some PermissionDeniedOrNotFound
   \<and> GetRoute sampleDeps duplicateRoutes ''r1''
     = Inl (ErrorString ''duplicate route GUID exists'')
   \<and> failureKind (GetRoute sampleDeps duplicateRoutes ''r1'')
     \<noteq> Some PermissionDeniedOrNotFound"
proof -
  have a1: "PackageRepo.privilegedClient_List (samplePackageRepo duplicatePackages)
              = Inr duplicatePackages"
    by (simp add: samplePackageRepo_def)
  have a2: "1 < length (filter (\<lambda>p. ObjectMeta.Name (CFPackage.ObjectMeta p) = ''p1'')
                          duplicatePackages)"
    by (simp add: duplicatePackages_def samplePackage_def sampleMeta_def)
  have a3: "1 < length (filter (\<lambda>cur. ObjectMeta.Name (CFRoute.ObjectMeta cur) = ''r1'')
                          (routes duplicateRoutes))"
    by (simp add: duplicateRoutes_def sampleRoute_def sampleMeta_def)
  show ?thesis
    by (rule duplicate_identifier_is_an_error [OF a1 a2 a3])
qed

section \<open>Client factory\<close>

text \<open>
  C4. For an \<open>Info\<close> whose scheme, in lower case, is neither the bearer scheme nor the
  client-certificate scheme, \<open>BuildClient\<close> fails with a \<open>NotAuthenticatedError\<close>, whose
  kind is \<open>NotAuthenticated\<close> and not \<open>Unknown\<close>, and no configuration is handed to
  \<^verbatim>\<open>client.NewWithWatch\<close>.
\<close>

theorem unsupported_scheme_is_not_authenticated:
  assumes "ToLower e (Scheme e authInfo) \<noteq> BearerScheme e"
    and "ToLower e (Scheme e authInfo) \<noteq> CertScheme e"
  shows "BuildClient e f authInfo
           = (Inl (NotAuthenticatedError
                     (ErrorString ''unsupported Authorization header scheme'')), [])
         \<and> failureKind (fst (BuildClient e f authInfo)) = Some NotAuthenticated
         \<and> failureKind (fst (BuildClient e f authInfo)) \<noteq> Some Unknown
         \<and> snd (BuildClient e f authInfo) = []"
  using assms by (simp add: BuildClient_def Let_def failureKind_def)

theorem unsupported_scheme_is_not_authenticated_witness:
  "BuildClient sampleFactoryDeps sampleFactory \<lparr> Token = [], Info.CertData = [] \<rparr>
     = (Inl (NotAuthenticatedError
               (ErrorString ''unsupported Authorization header scheme'')), [])
   \<and> failureKind (fst (BuildClient sampleFactoryDeps sampleFactory
                          \<lparr> Token = [], Info.CertData = [] \<rparr>))
     = Some NotAuthenticated
   \<and> failureKind (fst (BuildClient sampleFactoryDeps sampleFactory
                          \<lparr> Token = [], Info.CertData = [] \<rparr>))
     \<noteq> Some Unknown
   \<and> snd (BuildClient sampleFactoryDeps sampleFactory \<lparr> Token = [], Info.CertData = [] \<rparr>) = []"
proof -
  let ?a = "\<lparr> Token = [], Info.CertData = [] \<rparr>"
  have lower: "ToLower sampleFactoryDeps (Scheme sampleFactoryDeps ?a) = ''unknown''"
    by (simp add: sampleFactoryDeps_def asciiLower_def)
  have a1: "ToLower sampleFactoryDeps (Scheme sampleFactoryDeps ?a)
              \<noteq> BearerScheme sampleFactoryDeps"
    unfolding lower by (simp add: sampleFactoryDeps_def)
  have a2: "ToLower sampleFactoryDeps (Scheme sampleFactoryDeps ?a)
              \<noteq> CertScheme sampleFactoryDeps"
    unfolding lower by (simp add: sampleFactoryDeps_def)
  show ?thesis
    by (rule unsupported_scheme_is_not_authenticated [OF a1 a2])
qed

text \<open>
  C6. For an \<open>Info\<close> of the client-certificate scheme, when the certificate block does
  not decode, or the key block, read from what follows the certificate block, does not
  decode, \<open>BuildClient\<close> fails with the error of the block that failed, whose kind is
  \<open>Unknown\<close>, and no configuration is handed to \<^verbatim>\<open>client.NewWithWatch\<close>: no client is
  built, with or without credentials.
\<close>

theorem malformed_pem_fails_before_any_client:
  assumes "ToLower e (Scheme e authInfo) = CertScheme e"
    and "CertScheme e \<noteq> BearerScheme e"
    and "fst (pem_Decode e (Info.CertData authInfo)) = None
         \<or> fst (pem_Decode e (snd (pem_Decode e (Info.CertData authInfo)))) = None"
  shows "BuildClient e f authInfo
           = (Inl (ErrorString
                     (if fst (pem_Decode e (Info.CertData authInfo)) = None
                      then ''failed to decode cert PEM''
                      else ''failed to decode key PEM'')), [])
         \<and> failureKind (fst (BuildClient e f authInfo)) = Some Unknown
         \<and> snd (BuildClient e f authInfo) = []"
proof -
  obtain certBlock rst where cert: "pem_Decode e (Info.CertData authInfo) = (certBlock, rst)"
    by (cases "pem_Decode e (Info.CertData authInfo)")
  have "BuildClient e f authInfo
           = (Inl (ErrorString
                     (if certBlock = None then ''failed to decode cert PEM''
                      else ''failed to decode key PEM'')), [])"
  proof (cases certBlock)
    case None
    with assms(1) assms(2) cert show ?thesis
      by (simp add: BuildClient_def Let_def)
  next
    case (Some b)
    with assms(3) cert have "fst (pem_Decode e rst) = None" by simp
    with Some assms(1) assms(2) cert show ?thesis
      by (simp add: BuildClient_def Let_def)
  qed
  with cert show ?thesis by (simp add: failureKind_def)
qed

theorem malformed_pem_fails_before_any_client_witness:
  "BuildClient sampleFactoryDeps sampleFactory \<lparr> Token = [], Info.CertData = ''[cert]key'' \<rparr>
     = (Inl (ErrorString
               (if fst (pem_Decode sampleFactoryDeps
                          (Info.CertData \<lparr> Token = [], Info.CertData = ''[cert]key'' \<rparr>)) = None
                then ''failed to decode cert PEM''
                else ''failed to decode key PEM'')), [])
   \<and> failureKind (fst (BuildClient sampleFactoryDeps sampleFactory
                          \<lparr> Token = [], Info.CertData = ''[cert]key'' \<rparr>))
     = Some Unknown
   \<and> snd (BuildClient sampleFactoryDeps sampleFactory
             \<lparr> Token = [], Info.CertData = ''[cert]key'' \<rparr>) = []"
proof -
  let ?a = "\<lparr> Token = [], Info.CertData = ''[cert]key'' \<rparr>"
  have a1: "ToLower sampleFactoryDeps (Scheme sampleFactoryDeps ?a)
              = CertScheme sampleFactoryDeps"
    by (simp add: sampleFactoryDeps_def asciiLower_def)
  have a2: "CertScheme sampleFactoryDeps \<noteq> BearerScheme sampleFactoryDeps"
    by (simp add: sampleFactoryDeps_def)
  have "fst (pem_Decode sampleFactoryDeps
               (snd (pem_Decode sampleFactoryDeps (Info.CertData ?a)))) = None"
    by (simp add: sampleFactoryDeps_def bracketDecode_def)
  then have a3: "fst (pem_Decode sampleFactoryDeps (Info.CertData ?a)) = None
         \<or> fst (pem_Decode sampleFactoryDeps
                  (snd (pem_Decode sampleFactoryDeps (Info.CertData ?a)))) = None"
    by (rule disjI2)
  show ?thesis
    by (rule malformed_pem_fails_before_any_client [OF a1 a2 a3])
qed

section \<open>Route repository: get-or-create\<close>







section \<open>Route repository: merge without duplication\<close>

lemma destinationToRecord_recordToDestination [simp]:
  "destinationToRecord (recordToDestination d) = d"
  by (simp add: destinationToRecord_def recordToDestination_def)

lemma recordToDestination_destinationToRecord [simp]:
  "recordToDestination (destinationToRecord d) = d"
  by (simp add: destinationToRecord_def recordToDestination_def)





















end
